theory Spec2Isabelle
  imports Complex_Main
begin

section \<open>Python values and exceptions\<close>

text \<open>
  The module \<^verbatim>\<open>cnn_models.py\<close> builds five Keras graphs and hands them out by name.
  An exception of the source is a value here: a computation that may raise returns
  \<open>error + 'a\<close>, with \<open>Inl\<close> for the exception.
\<close>

datatype error = ValueError | ImportError | UnicodeEncodeError

definition and_then :: "error + 'a \<Rightarrow> ('a \<Rightarrow> error + 'b) \<Rightarrow> error + 'b" where
  \<comment> \<open>Statement sequencing: the first exception ends the function.\<close>
  "and_then r f = (case r of Inl e \<Rightarrow> Inl e | Inr x \<Rightarrow> f x)"

definition truediv :: "int \<Rightarrow> int \<Rightarrow> real" where
  \<comment> \<open>Python's \<^verbatim>\<open>a / b\<close> on integers, as the exact quotient. The interpreter returns the
      double nearest to it; \<open>int_of_float_rounding\<close> below covers that difference.\<close>
  "truediv a b = real_of_int a / real_of_int b"

definition py_int :: "real \<Rightarrow> int" where
  \<comment> \<open>Python's \<^verbatim>\<open>int(x)\<close> on a float: truncation towards zero.\<close>
  "py_int x = (if 0 \<le> x then \<lfloor>x\<rfloor> else \<lceil>x\<rceil>)"

definition import_from :: "string list \<Rightarrow> string \<Rightarrow> error + unit" where
  \<comment> \<open>\<^verbatim>\<open>from m import ...\<close> inside a function body, run when the function is called.
      \<open>modules\<close> lists the modules the interpreter can import and that define the names
      the source asks of them, besides tensorflow, whose import at the top of the file
      has succeeded whenever a function can be called. For any other module the
      statement raises \<^verbatim>\<open>ImportError\<close> (as its subclass \<^verbatim>\<open>ModuleNotFoundError\<close> when the
      module is not found at all).\<close>
  "import_from modules m = (if m \<in> set modules then Inr () else Inl ImportError)"

subsection \<open>Strings and standard output\<close>

text \<open>
  A \<^verbatim>\<open>str\<close> is a sequence of Unicode code points, the numbers below \<open>0x110000\<close>, lone
  surrogates (\<open>0xD800\<close> to \<open>0xDFFF\<close>) included. A string literal of the source has
  ASCII characters only and is the list of their codes.
\<close>

type_synonym pystr = "nat list"

definition py_str :: "string \<Rightarrow> pystr" where
  "py_str s = map of_char s"

text \<open>
  \<^verbatim>\<open>sys.stdout\<close> is \<^verbatim>\<open>None\<close> or a text stream, which is closed or open and has an
  encoding; the predicate says which code points that encoding, with the error
  handler of the stream, can write.
\<close>

datatype stream = NoStream | Stream bool "nat \<Rightarrow> bool"

definition utf8_strict :: "nat \<Rightarrow> bool" where
  \<comment> \<open>UTF-8 with the handler \<^verbatim>\<open>strict\<close>: every code point but the surrogates\<close>
  "utf8_strict c = (c < 0xD800 \<or> (0xE000 \<le> c \<and> c < 0x110000))"

fun py_print :: "stream \<Rightarrow> pystr \<Rightarrow> pystr \<times> error option" where
  \<comment> \<open>\<^verbatim>\<open>print(s)\<close>: the text that reached the stream and the exception raised, if any.
      \<^verbatim>\<open>print\<close> writes \<^verbatim>\<open>s\<close>, then the line end; it does nothing when there is no stream,
      a closed stream raises \<^verbatim>\<open>ValueError\<close>, and a text the stream cannot encode raises
      \<^verbatim>\<open>UnicodeEncodeError\<close> with none of it written.\<close>
  "py_print NoStream s = ([], None)"
| "py_print (Stream is_closed encodes) s =
     (if is_closed then ([], Some ValueError)
      else if list_all encodes s
           then (if encodes 10 then (s @ [10], None) else (s, Some UnicodeEncodeError))
           else ([], Some UnicodeEncodeError))"

section \<open>Keras layers and symbolic tensors\<close>

datatype activation = Tanh | Relu | Softmax

datatype padding = Valid | Same

text \<open>
  The layer constructors the source calls, with the arguments it passes. \<open>Conv1D\<close> has
  \<^verbatim>\<open>padding="valid"\<close> as its default, so a call without the argument is written with
  \<open>Valid\<close>. \<open>InputLayer\<close> is the layer behind \<^verbatim>\<open>Input(shape=...)\<close>.
\<close>

datatype layer =
    InputLayer
  | Conv1D int int activation padding
  | MaxPooling1D int
  | Flatten
  | Dense int activation
  | Reshape "int list"
  | Concatenate int
  | CoordinateChannel1D

text \<open>
  A symbolic tensor knows its shape, the layer that produced it and the tensors that
  layer was called on. Shapes are per sample: the leading batch dimension, which is
  \<^verbatim>\<open>None\<close> in every tensor of this program, is left out.
\<close>

datatype ktensor = KTensor (shape: "int list") (producer: layer) (inbound: "ktensor list")

record model =
  inputs :: ktensor
  outputs :: ktensor

definition Input :: "int list \<Rightarrow> ktensor" where
  "Input shp = KTensor shp InputLayer []"

subsection \<open>Shape rules of the layers\<close>

text \<open>
  Calling a layer on a symbolic tensor computes the shape of the result and raises
  \<^verbatim>\<open>ValueError\<close> when the input does not fit. These are the rules of the framework for
  the layers used here, with strides and dilation at the defaults the source leaves them at.
\<close>

definition conv_output_length :: "int \<Rightarrow> int \<Rightarrow> padding \<Rightarrow> int \<Rightarrow> int" where
  "conv_output_length input_length filter_size pad stride =
     (let output_length = (case pad of Same \<Rightarrow> input_length
                                      | Valid \<Rightarrow> input_length - filter_size + 1)
      in (output_length + stride - 1) div stride)"

definition concat_position :: "int \<Rightarrow> nat \<Rightarrow> nat option" where
  \<comment> \<open>The position in a per-sample shape of rank \<open>r\<close> that the Keras axis \<open>ax\<close> names
      (axis 0 is the batch axis; a negative axis counts from the end).\<close>
  "concat_position ax r =
     (let i = (if ax < 0 then ax + int r + 1 else ax)
      in if 1 \<le> i \<and> i \<le> int r then Some (nat (i - 1)) else None)"

definition without_axis :: "nat \<Rightarrow> int list \<Rightarrow> int list" where
  "without_axis i shp = take i shp @ drop (Suc i) shp"

definition concatenate_shape :: "int \<Rightarrow> int list list \<Rightarrow> error + int list" where
  \<comment> \<open>All inputs must agree on every axis but the concatenation axis, whose sizes add up.
      Concatenation along the batch axis is outside this model.\<close>
  "concatenate_shape ax shps =
     (case shps of
        [] \<Rightarrow> Inl ValueError
      | s0 # rest \<Rightarrow>
          (case concat_position ax (length s0) of
             None \<Rightarrow> Inl ValueError
           | Some i \<Rightarrow>
               if list_all (\<lambda>s. length s = length s0 \<and> without_axis i s = without_axis i s0) rest
               then Inr (s0[i := sum_list (map (\<lambda>s. s ! i) shps)])
               else Inl ValueError))"

fun output_shape :: "layer \<Rightarrow> int list list \<Rightarrow> error + int list" where
  "output_shape (Conv1D filters kernel_size act pad) [[steps, channels]] =
     (if filters \<le> 0 \<or> kernel_size \<le> 0 then Inl ValueError
      else let n = conv_output_length steps kernel_size pad 1
           in if n \<le> 0 then Inl ValueError else Inr [n, filters])"
| "output_shape (MaxPooling1D pool_size) [[steps, channels]] =
     (if pool_size \<le> 0 then Inl ValueError
      else let n = conv_output_length steps pool_size Valid pool_size
           in if n \<le> 0 then Inl ValueError else Inr [n, channels])"
| "output_shape Flatten [shp] = Inr [prod_list shp]"
| "output_shape (Dense units act) [shp] =
     (if units \<le> 0 \<or> shp = [] then Inl ValueError else Inr (butlast shp @ [units]))"
| "output_shape (Reshape target_shape) [shp] =
     \<comment> \<open>the wildcard \<^verbatim>\<open>-1\<close> in a target shape is not used by this program and not modelled\<close>
     (if list_all (\<lambda>d. 0 < d) target_shape \<and> prod_list target_shape = prod_list shp
      then Inr target_shape else Inl ValueError)"
| "output_shape (Concatenate ax) shps = concatenate_shape ax shps"
| "output_shape CoordinateChannel1D [[steps, channels]] =
     \<comment> \<open>Modelled from the spec: the layer of the external module \<^verbatim>\<open>coord\<close>, which is not
         part of the source file. The spec describes it as adding one coordinate
         channel to the input before the first convolution.\<close>
     Inr [steps, channels + 1]"
| "output_shape _ _ = Inl ValueError"

definition call :: "layer \<Rightarrow> ktensor list \<Rightarrow> error + ktensor" where
  \<comment> \<open>\<^verbatim>\<open>Layer(...)(x)\<close> and \<^verbatim>\<open>Layer(...)([x, y])\<close>\<close>
  "call l ts = and_then (output_shape l (map shape ts)) (\<lambda>shp. Inr (KTensor shp l ts))"

fun input_tensors :: "ktensor \<Rightarrow> ktensor list" where
  "input_tensors (KTensor shp l ts) =
     (if l = InputLayer then [KTensor shp l ts] else concat (map input_tensors ts))"

definition Model :: "ktensor \<Rightarrow> ktensor \<Rightarrow> error + model" where
  \<comment> \<open>\<^verbatim>\<open>Model(inputs=inp, outputs=x)\<close>: the framework refuses a graph whose output
      depends on an input tensor other than the one given.\<close>
  "Model inp x =
     (if list_all (\<lambda>t. t = inp) (input_tensors x)
      then Inr \<lparr>inputs = inp, outputs = x\<rparr> else Inl ValueError)"

section \<open>The five architectures\<close>

definition HuEtAl_kernel_size :: "int \<Rightarrow> int" where
  \<comment> \<open>\<^verbatim>\<open>kernel_size = seq_length // 9\<close>\<close>
  "HuEtAl_kernel_size seq_length = seq_length div 9"

definition HuEtAl_pool_size :: "int \<Rightarrow> int \<Rightarrow> int" where
  \<comment> \<open>\<^verbatim>\<open>pool_size = int((seq_length - kernel_size + 1) / 35)\<close>\<close>
  "HuEtAl_pool_size seq_length kernel_size =
     py_int (truediv (seq_length - kernel_size + 1) 35)"

definition HuEtAl :: "error + model" where
  "HuEtAl =
    (let seq_length = 256;
         kernel_size = HuEtAl_kernel_size seq_length;
         pool_size = HuEtAl_pool_size seq_length kernel_size;
         inp = Input [seq_length, 1]
     in
     and_then (call (Conv1D 20 kernel_size Tanh Valid) [inp]) (\<lambda>x.
     and_then (call (MaxPooling1D pool_size) [x]) (\<lambda>x.
     and_then (call Flatten [x]) (\<lambda>x.
     and_then (call (Dense 100 Tanh) [x]) (\<lambda>x.
     and_then (call (Dense 4 Softmax) [x]) (\<lambda>x.
     Model inp x))))))"

definition LiuEtAl :: "error + model" where
  "LiuEtAl =
    (let seq_length = 256;
         kernel_size = 3;
         inp = Input [seq_length, 1]
     in
     and_then (call (Conv1D 32 kernel_size Relu Valid) [inp]) (\<lambda>x.
     and_then (call (MaxPooling1D 2) [x]) (\<lambda>x.
     and_then (call (Conv1D 32 kernel_size Relu Valid) [x]) (\<lambda>x.
     and_then (call (MaxPooling1D 2) [x]) (\<lambda>x.
     and_then (call (Conv1D 64 kernel_size Relu Valid) [x]) (\<lambda>x.
     and_then (call (MaxPooling1D 2) [x]) (\<lambda>x.
     and_then (call (Conv1D 64 kernel_size Relu Valid) [x]) (\<lambda>x.
     and_then (call (MaxPooling1D 2) [x]) (\<lambda>x.
     and_then (call Flatten [x]) (\<lambda>x.
     and_then (call (Dense 4 Softmax) [x]) (\<lambda>x.
     Model inp x)))))))))))"

definition LucasCNN :: "error + model" where
  "LucasCNN =
    (let seq_length = 256;
         kernel_size = 3;
         activation = Relu;
         padding = Valid;
         inp = Input [seq_length, 1]
     in
     and_then (call (Conv1D 32 kernel_size activation padding) [inp]) (\<lambda>x.
     and_then (call (MaxPooling1D 2) [x]) (\<lambda>x.
     and_then (call (Conv1D 32 kernel_size activation padding) [x]) (\<lambda>x.
     and_then (call (MaxPooling1D 2) [x]) (\<lambda>x.
     and_then (call (Conv1D 64 kernel_size activation padding) [x]) (\<lambda>x.
     and_then (call (MaxPooling1D 2) [x]) (\<lambda>x.
     and_then (call (Conv1D 64 kernel_size activation padding) [x]) (\<lambda>x.
     and_then (call (MaxPooling1D 2) [x]) (\<lambda>x.
     and_then (call Flatten [x]) (\<lambda>x.
     and_then (call (Dense 120 activation) [x]) (\<lambda>x.
     and_then (call (Dense 160 activation) [x]) (\<lambda>x.
     and_then (call (Dense 4 Softmax) [x]) (\<lambda>x.
     Model inp x)))))))))))))"

definition LucasResNet :: "error + model" where
  "LucasResNet =
    (let seq_length = 256;
         kernel_size = 3;
         activation = Relu;
         padding = Same;
         inp = Input [seq_length, 1]
     in
     and_then (call (Conv1D 32 kernel_size activation padding) [inp]) (\<lambda>x.
     and_then (call (MaxPooling1D 2) [x]) (\<lambda>x.
     and_then (call (Conv1D 32 kernel_size activation padding) [x]) (\<lambda>x.
     and_then (call (MaxPooling1D 2) [x]) (\<lambda>x.
     and_then (call (Conv1D 64 kernel_size activation padding) [x]) (\<lambda>x.
     and_then (call (MaxPooling1D 2) [x]) (\<lambda>x.
     and_then (call (Conv1D 64 kernel_size activation padding) [x]) (\<lambda>x.
     and_then (call (MaxPooling1D 2) [x]) (\<lambda>x.
     and_then (call (Reshape [16, 16]) [inp]) (\<lambda>inp_res.
     and_then (call (Concatenate (- 1)) [x, inp_res]) (\<lambda>x.
     and_then (call Flatten [x]) (\<lambda>x.
     and_then (call (Dense 150 activation) [x]) (\<lambda>x.
     and_then (call (Dense 100 activation) [x]) (\<lambda>x.
     and_then (call (Dense 4 Softmax) [x]) (\<lambda>x.
     Model inp x)))))))))))))))"

definition LucasCoordConv :: "string list \<Rightarrow> error + model" where
  "LucasCoordConv modules =
    and_then (import_from modules ''coord'') (\<lambda>_.
    (let seq_length = 256;
         kernel_size = 3;
         activation = Relu;
         padding = Valid;
         inp = Input [seq_length, 1]
     in
     and_then (call CoordinateChannel1D [inp]) (\<lambda>x.
     and_then (call (Conv1D 32 kernel_size activation padding) [x]) (\<lambda>x.
     and_then (call (MaxPooling1D 2) [x]) (\<lambda>x.
     and_then (call (Conv1D 64 kernel_size activation padding) [x]) (\<lambda>x.
     and_then (call (MaxPooling1D 2) [x]) (\<lambda>x.
     and_then (call (Conv1D 64 kernel_size activation padding) [x]) (\<lambda>x.
     and_then (call (MaxPooling1D 2) [x]) (\<lambda>x.
     and_then (call (Conv1D 128 kernel_size activation padding) [x]) (\<lambda>x.
     and_then (call (MaxPooling1D 2) [x]) (\<lambda>x.
     and_then (call Flatten [x]) (\<lambda>x.
     and_then (call (Dense 256 activation) [x]) (\<lambda>x.
     and_then (call (Dense 128 activation) [x]) (\<lambda>x.
     and_then (call (Dense 4 Softmax) [x]) (\<lambda>x.
     Model inp x)))))))))))))))"

section \<open>The factory\<close>

definition returned :: "error + model \<Rightarrow> error + model option" where
  \<comment> \<open>\<^verbatim>\<open>return f()\<close>: the model \<open>f\<close> built, or the exception it raised\<close>
  "returned r = and_then r (\<lambda>m. Inr (Some m))"

definition not_implemented :: "pystr \<Rightarrow> pystr" where
  \<comment> \<open>\<^verbatim>\<open>"Error: Model {0} not implemented.".format(model_name)\<close>\<close>
  "not_implemented model_name =
     py_str ''Error: Model '' @ model_name @ py_str '' not implemented.''"

definition getKerasModel ::
  "string list \<Rightarrow> stream \<Rightarrow> pystr \<Rightarrow> pystr \<times> (error + model option)" where
  \<comment> \<open>\<open>modules\<close> and \<open>out\<close> are the state of the interpreter the call runs in. The
      result is the text written to standard output and the value returned (\<open>None\<close>
      is Python's \<^verbatim>\<open>None\<close>) or the exception raised.\<close>
  "getKerasModel modules out model_name =
     (if model_name = py_str ''LucasCNN'' then ([], returned LucasCNN)
      else if model_name = py_str ''HuEtAl'' then ([], returned HuEtAl)
      else if model_name = py_str ''LiuEtAl'' then ([], returned LiuEtAl)
      else if model_name = py_str ''LucasResNet'' then ([], returned LucasResNet)
      else if model_name = py_str ''LucasCoordConv'' then ([], returned (LucasCoordConv modules))
      else (case py_print out (not_implemented model_name) of
              (written, Some e) \<Rightarrow> (written, Inl e)
            | (written, None) \<Rightarrow> (written, Inr None)))"

section \<open>Reading a built graph\<close>

text \<open>
  The graph behind a tensor: every tensor its value depends on, each once, in the
  order in which the source created them along each branch.
\<close>

fun tensors_of :: "ktensor \<Rightarrow> ktensor list" where
  "tensors_of (KTensor shp l ts) = concat (map tensors_of ts) @ [KTensor shp l ts]"

definition nodes :: "model \<Rightarrow> ktensor list" where
  \<comment> \<open>a tensor reached along two branches is kept at its first place\<close>
  "nodes m = rev (remdups (rev (tensors_of (outputs m))))"

definition layers :: "model \<Rightarrow> layer list" where
  "layers m = map producer (nodes m)"

definition produced_by :: "layer \<Rightarrow> model \<Rightarrow> ktensor list" where
  "produced_by l m = filter (\<lambda>t. producer t = l) (nodes m)"

fun is_conv :: "layer \<Rightarrow> bool" where
  "is_conv (Conv1D filters kernel_size act pad) = True"
| "is_conv _ = False"

fun is_pool :: "layer \<Rightarrow> bool" where
  "is_pool (MaxPooling1D pool_size) = True"
| "is_pool _ = False"

fun is_dense :: "layer \<Rightarrow> bool" where
  "is_dense (Dense units act) = True"
| "is_dense _ = False"

definition conv_layers :: "model \<Rightarrow> layer list" where
  "conv_layers m = filter is_conv (layers m)"

definition pool_layers :: "model \<Rightarrow> layer list" where
  "pool_layers m = filter is_pool (layers m)"

definition dense_layers :: "model \<Rightarrow> layer list" where
  "dense_layers m = filter is_dense (layers m)"

definition hidden_dense_layers :: "model \<Rightarrow> layer list" where
  \<comment> \<open>the dense layers before the layer that produces the output\<close>
  "hidden_dense_layers m = filter is_dense (butlast (layers m))"

fun activation_of :: "layer \<Rightarrow> activation option" where
  "activation_of (Conv1D filters kernel_size act pad) = Some act"
| "activation_of (Dense units act) = Some act"
| "activation_of _ = None"

definition model_names :: "pystr list" where
  \<comment> \<open>the names \<open>getKerasModel\<close> compares its argument with, in its order\<close>
  "model_names =
     map py_str [''LucasCNN'', ''HuEtAl'', ''LiuEtAl'', ''LucasResNet'', ''LucasCoordConv'']"

section \<open>Evaluation\<close>

lemmas build_defs = and_then_def call_def Model_def Input_def conv_output_length_def
  concatenate_shape_def concat_position_def without_axis_def import_from_def Let_def

lemmas read_defs = nodes_def layers_def produced_by_def conv_layers_def pool_layers_def
  dense_layers_def hidden_dense_layers_def

subsection \<open>The arithmetic of the source\<close>

lemma HuEtAl_kernel_size_256: "HuEtAl_kernel_size 256 = 28"
  by (simp add: HuEtAl_kernel_size_def)

lemma HuEtAl_pool_size_256: "HuEtAl_pool_size 256 28 = 6"
  by (simp add: HuEtAl_pool_size_def py_int_def truediv_def)

lemma HuEtAl_pool_size_floor:
  "kernel_size \<le> seq_length + 1 \<Longrightarrow>
   HuEtAl_pool_size seq_length kernel_size = (seq_length - kernel_size + 1) div 35"
  using floor_divide_of_int_eq [of "seq_length - kernel_size + 1" 35, where ?'a = real]
  by (simp add: HuEtAl_pool_size_def py_int_def truediv_def)

text \<open>
  The quotient the interpreter truncates is the double nearest to \<open>229 / 35\<close>, not the
  real number itself. Any value within a quarter of the exact quotient has the same
  integer part, so the rounding does not change the pool size.
\<close>

lemma int_of_float_rounding:
  assumes "\<bar>q - truediv 229 35\<bar> \<le> 1 / 4"
  shows "py_int q = 6"
proof -
  from assms have "\<bar>q - 229 / 35\<bar> \<le> 1 / 4"
    by (simp add: truediv_def)
  then have "6 \<le> q" and "q < 7"
    by linarith+
  then have "\<lfloor>q\<rfloor> = 6"
    by (simp add: floor_eq_iff)
  with \<open>6 \<le> q\<close> show ?thesis
    by (simp add: py_int_def)
qed

lemma same_padding_keeps_length: "conv_output_length n k Same 1 = n"
  by (simp add: conv_output_length_def)

lemma pooling_by_two_halves: "conv_output_length n 2 Valid 2 = n div 2"
  by (simp add: conv_output_length_def)

subsection \<open>The graphs the five functions build\<close>

lemma HuEtAl_built:
  "\<exists>m. HuEtAl = Inr m \<and> shape (inputs m) = [256, 1] \<and> shape (outputs m) = [4]
     \<and> producer (outputs m) = Dense 4 Softmax
     \<and> remdups (input_tensors (outputs m)) = [inputs m]
     \<and> layers m = [InputLayer, Conv1D 20 28 Tanh Valid, MaxPooling1D 6, Flatten,
                    Dense 100 Tanh, Dense 4 Softmax]"
  by (simp add: HuEtAl_def HuEtAl_kernel_size_256 HuEtAl_pool_size_256 build_defs read_defs)

lemma LiuEtAl_built:
  "\<exists>m. LiuEtAl = Inr m \<and> shape (inputs m) = [256, 1] \<and> shape (outputs m) = [4]
     \<and> producer (outputs m) = Dense 4 Softmax
     \<and> remdups (input_tensors (outputs m)) = [inputs m]
     \<and> layers m = [InputLayer, Conv1D 32 3 Relu Valid, MaxPooling1D 2,
                    Conv1D 32 3 Relu Valid, MaxPooling1D 2, Conv1D 64 3 Relu Valid,
                    MaxPooling1D 2, Conv1D 64 3 Relu Valid, MaxPooling1D 2, Flatten,
                    Dense 4 Softmax]"
  by (simp add: LiuEtAl_def build_defs read_defs)

lemma LucasCNN_built:
  "\<exists>m. LucasCNN = Inr m \<and> shape (inputs m) = [256, 1] \<and> shape (outputs m) = [4]
     \<and> producer (outputs m) = Dense 4 Softmax
     \<and> remdups (input_tensors (outputs m)) = [inputs m]
     \<and> layers m = [InputLayer, Conv1D 32 3 Relu Valid, MaxPooling1D 2,
                    Conv1D 32 3 Relu Valid, MaxPooling1D 2, Conv1D 64 3 Relu Valid,
                    MaxPooling1D 2, Conv1D 64 3 Relu Valid, MaxPooling1D 2, Flatten,
                    Dense 120 Relu, Dense 160 Relu, Dense 4 Softmax]"
  by (simp add: LucasCNN_def build_defs read_defs)

lemma LucasResNet_built:
  "\<exists>m. LucasResNet = Inr m \<and> shape (inputs m) = [256, 1] \<and> shape (outputs m) = [4]
     \<and> producer (outputs m) = Dense 4 Softmax
     \<and> remdups (input_tensors (outputs m)) = [inputs m]
     \<and> layers m = [InputLayer, Conv1D 32 3 Relu Same, MaxPooling1D 2,
                    Conv1D 32 3 Relu Same, MaxPooling1D 2, Conv1D 64 3 Relu Same,
                    MaxPooling1D 2, Conv1D 64 3 Relu Same, MaxPooling1D 2,
                    Reshape [16, 16], Concatenate (- 1), Flatten,
                    Dense 150 Relu, Dense 100 Relu, Dense 4 Softmax]"
  by (simp add: LucasResNet_def build_defs read_defs)

lemma LucasCoordConv_missing:
  "''coord'' \<notin> set modules \<Longrightarrow> LucasCoordConv modules = Inl ImportError"
  by (simp add: LucasCoordConv_def import_from_def and_then_def)

lemma LucasCoordConv_imported:
  "''coord'' \<in> set modules \<Longrightarrow> LucasCoordConv modules = LucasCoordConv [''coord'']"
  by (simp add: LucasCoordConv_def import_from_def)

lemma LucasCoordConv_built_here:
  "\<exists>m. LucasCoordConv [''coord''] = Inr m \<and> shape (inputs m) = [256, 1]
     \<and> shape (outputs m) = [4]
     \<and> producer (outputs m) = Dense 4 Softmax \<and> remdups (input_tensors (outputs m)) = [inputs m]
     \<and> layers m = [InputLayer, CoordinateChannel1D, Conv1D 32 3 Relu Valid,
                    MaxPooling1D 2, Conv1D 64 3 Relu Valid, MaxPooling1D 2,
                    Conv1D 64 3 Relu Valid, MaxPooling1D 2, Conv1D 128 3 Relu Valid,
                    MaxPooling1D 2, Flatten, Dense 256 Relu, Dense 128 Relu,
                    Dense 4 Softmax]"
  by (simp add: LucasCoordConv_def build_defs read_defs)

lemma LucasCoordConv_built:
  assumes "''coord'' \<in> set modules"
  shows "\<exists>m. LucasCoordConv modules = Inr m \<and> shape (inputs m) = [256, 1]
     \<and> shape (outputs m) = [4]
     \<and> producer (outputs m) = Dense 4 Softmax \<and> remdups (input_tensors (outputs m)) = [inputs m]
     \<and> layers m = [InputLayer, CoordinateChannel1D, Conv1D 32 3 Relu Valid,
                    MaxPooling1D 2, Conv1D 64 3 Relu Valid, MaxPooling1D 2,
                    Conv1D 64 3 Relu Valid, MaxPooling1D 2, Conv1D 128 3 Relu Valid,
                    MaxPooling1D 2, Flatten, Dense 256 Relu, Dense 128 Relu,
                    Dense 4 Softmax]"
  using LucasCoordConv_built_here LucasCoordConv_imported [OF assms] by simp

section \<open>The factory hands out the five graphs\<close>

lemma returned_Inr: "returned (Inr m) = Inr (Some m)"
  by (simp add: returned_def and_then_def)

lemma returned_Inl: "returned (Inl e) = Inl e"
  by (simp add: returned_def and_then_def)

lemma returned_built:
  "\<exists>m. r = Inr m \<and> P m \<Longrightarrow> \<exists>m. r = Inr m \<and> returned r = Inr (Some m) \<and> P m"
  by (auto simp: returned_Inr)

lemma returned_not_None: "returned r \<noteq> Inr None"
  by (cases r) (simp_all add: returned_Inr returned_Inl)

lemma model_names_cases:
  assumes "name \<in> set model_names"
  obtains "name = py_str ''LucasCNN''" | "name = py_str ''HuEtAl''"
    | "name = py_str ''LiuEtAl''" | "name = py_str ''LucasResNet''"
    | "name = py_str ''LucasCoordConv''"
  using assms by (auto simp: model_names_def)

lemma getKerasModel_known:
  "getKerasModel modules out (py_str ''LucasCNN'') = ([], returned LucasCNN)"
  "getKerasModel modules out (py_str ''HuEtAl'') = ([], returned HuEtAl)"
  "getKerasModel modules out (py_str ''LiuEtAl'') = ([], returned LiuEtAl)"
  "getKerasModel modules out (py_str ''LucasResNet'') = ([], returned LucasResNet)"
  "getKerasModel modules out (py_str ''LucasCoordConv'')
     = ([], returned (LucasCoordConv modules))"
  by (simp_all add: getKerasModel_def py_str_def)

lemma getKerasModel_not_found:
  assumes "name \<notin> set model_names"
  shows "getKerasModel modules out name =
           (case py_print out (not_implemented name) of
              (written, Some e) \<Rightarrow> (written, Inl e)
            | (written, None) \<Rightarrow> (written, Inr None))"
  using assms by (simp add: getKerasModel_def model_names_def)



text \<open>
  C1: for each of the five names the factory returns a graph with one input tensor of
  shape (256, 1) and an output tensor of shape (4,) that a 4-unit softmax dense layer
  produces. \<open>LucasCoordConv\<close> needs the module \<^verbatim>\<open>coord\<close>, the collaborator the
  architecture requires, to be importable.
\<close>

theorem getKerasModel_shapes:
  assumes "name \<in> set model_names"
    and "name = py_str ''LucasCoordConv'' \<longrightarrow> ''coord'' \<in> set modules"
  shows "\<exists>m. getKerasModel modules out name = ([], Inr (Some m))
           \<and> shape (inputs m) = [256, 1] \<and> shape (outputs m) = [4]
           \<and> producer (outputs m) = Dense 4 Softmax
           \<and> remdups (input_tensors (outputs m)) = [inputs m]"
  using assms(1)
proof (cases rule: model_names_cases)
  case 1
  with returned_built [OF LucasCNN_built] show ?thesis
    by (auto simp: getKerasModel_known)
next
  case 2
  with returned_built [OF HuEtAl_built] show ?thesis
    by (auto simp: getKerasModel_known)
next
  case 3
  with returned_built [OF LiuEtAl_built] show ?thesis
    by (auto simp: getKerasModel_known)
next
  case 4
  with returned_built [OF LucasResNet_built] show ?thesis
    by (auto simp: getKerasModel_known)
next
  case 5
  with assms(2) have "''coord'' \<in> set modules"
    by simp
  from returned_built [OF LucasCoordConv_built [OF this]] 5 show ?thesis
    by (auto simp: getKerasModel_known)
qed

theorem getKerasModel_shapes_witness:
  "(\<exists>m. getKerasModel [''coord''] (Stream False utf8_strict) (py_str ''LucasCoordConv'')
          = ([], Inr (Some m))
       \<and> shape (inputs m) = [256, 1] \<and> shape (outputs m) = [4]
       \<and> producer (outputs m) = Dense 4 Softmax
       \<and> remdups (input_tensors (outputs m)) = [inputs m])
   \<and> (\<exists>m. getKerasModel [''coord''] (Stream False utf8_strict) (py_str ''LucasResNet'')
          = ([], Inr (Some m))
       \<and> shape (inputs m) = [256, 1] \<and> shape (outputs m) = [4]
       \<and> producer (outputs m) = Dense 4 Softmax
       \<and> remdups (input_tensors (outputs m)) = [inputs m])"
  using getKerasModel_shapes [of "py_str ''LucasCoordConv''" "[''coord'']" "Stream False utf8_strict"]
    getKerasModel_shapes [of "py_str ''LucasResNet''" "[''coord'']" "Stream False utf8_strict"]
  by (simp add: model_names_def)

section \<open>Names the factory does not know\<close>




text \<open>
  C8, as the claim states it, fails in the same way: \<^verbatim>\<open>"LucasCNN\udfff"\<close> differs from
  \<^verbatim>\<open>"LucasCNN"\<close> by one trailing character, and on a UTF-8 standard output the call
  raises instead of returning \<^verbatim>\<open>None\<close>.
\<close>

theorem getKerasModel_mismatch_raises:
  "snd (getKerasModel [''coord''] (Stream False utf8_strict) (py_str ''LucasCNN'' @ [0xDFFF]))
     = Inl UnicodeEncodeError"
  by (simp add: getKerasModel_def py_str_def not_implemented_def utf8_strict_def)

text \<open>
  C8, amended: the comparison is exact and case-sensitive. A model is returned only
  for a string that is, character for character, one of the five names. For every
  other string the factory returns \<^verbatim>\<open>None\<close> when \<^verbatim>\<open>print\<close> succeeds, as it does for
  \<^verbatim>\<open>"lucascnn"\<close>, \<^verbatim>\<open>"HUETAL"\<close> and \<^verbatim>\<open>"LucasCNN "\<close> on a UTF-8 standard output, and
  \<^verbatim>\<open>None\<close> is returned for no other call.
\<close>

theorem getKerasModel_exact_match:
  "(snd (getKerasModel modules out name) = Inr None)
     = (name \<notin> set model_names \<and> snd (py_print out (not_implemented name)) = None)
   \<and> ((\<exists>m. snd (getKerasModel modules out name) = Inr (Some m))
        \<longrightarrow> name \<in> set model_names)"
proof (cases "name \<in> set model_names")
  case True
  then have "snd (getKerasModel modules out name) \<noteq> Inr None"
    by (cases rule: model_names_cases) (simp_all add: getKerasModel_known returned_not_None)
  with True show ?thesis
    by simp
next
  case False
  then show ?thesis
    by (simp add: getKerasModel_not_found split: prod.splits option.splits)
qed

theorem getKerasModel_exact_match_witness:
  "snd (getKerasModel [''coord''] (Stream False utf8_strict) (py_str ''lucascnn'')) = Inr None
   \<and> snd (getKerasModel [''coord''] (Stream False utf8_strict) (py_str ''HUETAL'')) = Inr None
   \<and> snd (getKerasModel [''coord''] (Stream False utf8_strict) (py_str ''LucasCNN '')) = Inr None
   \<and> snd (getKerasModel [''coord''] (Stream False utf8_strict) (py_str ''LucasCNN''))
       \<noteq> Inr None"
  using getKerasModel_exact_match [of "[''coord'']" "Stream False utf8_strict" "py_str ''lucascnn''"]
    getKerasModel_exact_match [of "[''coord'']" "Stream False utf8_strict" "py_str ''HUETAL''"]
    getKerasModel_exact_match [of "[''coord'']" "Stream False utf8_strict" "py_str ''LucasCNN ''"]
    getKerasModel_exact_match [of "[''coord'']" "Stream False utf8_strict" "py_str ''LucasCNN''"]
  by (simp add: model_names_def py_str_def not_implemented_def utf8_strict_def)

section \<open>Hyperparameters of the five architectures\<close>

lemma built_mono:
  assumes "\<exists>m. r = Inr m \<and> P m" and "\<And>m. P m \<Longrightarrow> Q m"
  shows "\<exists>m. r = Inr m \<and> Q m"
  using assms by blast

lemmas filter_defs = conv_layers_def pool_layers_def dense_layers_def hidden_dense_layers_def

text \<open>
  C4: in \<open>HuEtAl\<close>, with a sequence length of 256, the kernel size is \<open>256 div 9 = 28\<close>
  and the pool size, which the source computes as \<^verbatim>\<open>int((256 - 28 + 1) / 35)\<close>, is
  the integer quotient \<open>(256 - 28 + 1) div 35 = 6\<close>. These are the kernel size of the
  convolution and the pool size of the pooling layer in the graph that is built.
\<close>

theorem HuEtAl_kernel_and_pool_size:
  "HuEtAl_kernel_size 256 = 256 div 9
   \<and> HuEtAl_kernel_size 256 = 28
   \<and> HuEtAl_pool_size 256 (HuEtAl_kernel_size 256) = (256 - HuEtAl_kernel_size 256 + 1) div 35
   \<and> HuEtAl_pool_size 256 (HuEtAl_kernel_size 256) = 6
   \<and> (\<exists>m. HuEtAl = Inr m \<and> conv_layers m = [Conv1D 20 28 Tanh Valid]
          \<and> pool_layers m = [MaxPooling1D 6])"
proof -
  have "\<exists>m. HuEtAl = Inr m \<and> conv_layers m = [Conv1D 20 28 Tanh Valid]
          \<and> pool_layers m = [MaxPooling1D 6]"
    by (rule built_mono [OF HuEtAl_built]) (simp add: filter_defs)
  then show ?thesis
    by (simp add: HuEtAl_kernel_size_256 HuEtAl_pool_size_256)
qed

text \<open>
  C5: the layers of each architecture are those of the table. \<open>HuEtAl\<close>: one convolution
  (20 filters, kernel 28), one pooling layer, one hidden dense layer of 100 units.
  \<open>LiuEtAl\<close>: four convolutions (32, 32, 64, 64 filters, kernel 3), each followed by a
  pooling of size 2, then flatten and the softmax layer, with no hidden dense layer.
  \<open>LucasCNN\<close>: four convolutions (32, 32, 64, 64, kernel 3, valid padding) and hidden
  dense layers of 120 then 160 units. \<open>LucasResNet\<close>: four convolutions with same
  padding and hidden dense layers of 150 then 100 units. \<open>LucasCoordConv\<close>, once the
  module \<^verbatim>\<open>coord\<close> is imported: four convolutions (32, 64, 64, 128 filters) and hidden
  dense layers of 256 then 128 units.
\<close>

theorem layer_composition:
  assumes "''coord'' \<in> set modules"
  shows "(\<exists>m. HuEtAl = Inr m
            \<and> conv_layers m = [Conv1D 20 28 Tanh Valid]
            \<and> pool_layers m = [MaxPooling1D 6]
            \<and> hidden_dense_layers m = [Dense 100 Tanh])
       \<and> (\<exists>m. LiuEtAl = Inr m
            \<and> layers m = [InputLayer,
                 Conv1D 32 3 Relu Valid, MaxPooling1D 2, Conv1D 32 3 Relu Valid, MaxPooling1D 2,
                 Conv1D 64 3 Relu Valid, MaxPooling1D 2, Conv1D 64 3 Relu Valid, MaxPooling1D 2,
                 Flatten, Dense 4 Softmax]
            \<and> length (conv_layers m) = 4 \<and> length (pool_layers m) = 4
            \<and> hidden_dense_layers m = [])
       \<and> (\<exists>m. LucasCNN = Inr m
            \<and> conv_layers m = [Conv1D 32 3 Relu Valid, Conv1D 32 3 Relu Valid,
                               Conv1D 64 3 Relu Valid, Conv1D 64 3 Relu Valid]
            \<and> hidden_dense_layers m = [Dense 120 Relu, Dense 160 Relu])
       \<and> (\<exists>m. LucasResNet = Inr m
            \<and> conv_layers m = [Conv1D 32 3 Relu Same, Conv1D 32 3 Relu Same,
                               Conv1D 64 3 Relu Same, Conv1D 64 3 Relu Same]
            \<and> hidden_dense_layers m = [Dense 150 Relu, Dense 100 Relu])
       \<and> (\<exists>m. LucasCoordConv modules = Inr m
            \<and> conv_layers m = [Conv1D 32 3 Relu Valid, Conv1D 64 3 Relu Valid,
                               Conv1D 64 3 Relu Valid, Conv1D 128 3 Relu Valid]
            \<and> hidden_dense_layers m = [Dense 256 Relu, Dense 128 Relu])"
proof (intro conjI)
  show "\<exists>m. HuEtAl = Inr m
            \<and> conv_layers m = [Conv1D 20 28 Tanh Valid]
            \<and> pool_layers m = [MaxPooling1D 6]
            \<and> hidden_dense_layers m = [Dense 100 Tanh]"
    by (rule built_mono [OF HuEtAl_built]) (simp add: filter_defs)
  show "\<exists>m. LiuEtAl = Inr m
            \<and> layers m = [InputLayer,
                 Conv1D 32 3 Relu Valid, MaxPooling1D 2, Conv1D 32 3 Relu Valid, MaxPooling1D 2,
                 Conv1D 64 3 Relu Valid, MaxPooling1D 2, Conv1D 64 3 Relu Valid, MaxPooling1D 2,
                 Flatten, Dense 4 Softmax]
            \<and> length (conv_layers m) = 4 \<and> length (pool_layers m) = 4
            \<and> hidden_dense_layers m = []"
    by (rule built_mono [OF LiuEtAl_built]) (simp add: filter_defs)
  show "\<exists>m. LucasCNN = Inr m
            \<and> conv_layers m = [Conv1D 32 3 Relu Valid, Conv1D 32 3 Relu Valid,
                               Conv1D 64 3 Relu Valid, Conv1D 64 3 Relu Valid]
            \<and> hidden_dense_layers m = [Dense 120 Relu, Dense 160 Relu]"
    by (rule built_mono [OF LucasCNN_built]) (simp add: filter_defs)
  show "\<exists>m. LucasResNet = Inr m
            \<and> conv_layers m = [Conv1D 32 3 Relu Same, Conv1D 32 3 Relu Same,
                               Conv1D 64 3 Relu Same, Conv1D 64 3 Relu Same]
            \<and> hidden_dense_layers m = [Dense 150 Relu, Dense 100 Relu]"
    by (rule built_mono [OF LucasResNet_built]) (simp add: filter_defs)
  show "\<exists>m. LucasCoordConv modules = Inr m
            \<and> conv_layers m = [Conv1D 32 3 Relu Valid, Conv1D 64 3 Relu Valid,
                               Conv1D 64 3 Relu Valid, Conv1D 128 3 Relu Valid]
            \<and> hidden_dense_layers m = [Dense 256 Relu, Dense 128 Relu]"
    by (rule built_mono [OF LucasCoordConv_built [OF assms]]) (simp add: filter_defs)
qed

theorem layer_composition_witness:
  "''coord'' \<in> set [''coord'']
   \<and> (\<exists>m. LucasCoordConv [''coord''] = Inr m
        \<and> conv_layers m = [Conv1D 32 3 Relu Valid, Conv1D 64 3 Relu Valid,
                           Conv1D 64 3 Relu Valid, Conv1D 128 3 Relu Valid]
        \<and> hidden_dense_layers m = [Dense 256 Relu, Dense 128 Relu])
   \<and> (\<exists>m. LiuEtAl = Inr m \<and> length (conv_layers m) = 4 \<and> length (pool_layers m) = 4
        \<and> hidden_dense_layers m = [])"
proof -
  have h: "''coord'' \<in> set [''coord'']"
    by simp
  from h layer_composition [OF h] show ?thesis
    by blast
qed

text \<open>
  C10: \<open>HuEtAl\<close> uses tanh in its convolution and in its hidden dense layer; the four
  other architectures use relu in every convolution and every hidden dense layer; the
  layer that produces the output is the 4-unit softmax layer in all five.
\<close>

theorem activations:
  assumes "''coord'' \<in> set modules"
  shows "(\<exists>m. HuEtAl = Inr m
            \<and> map activation_of (conv_layers m) = [Some Tanh]
            \<and> map activation_of (hidden_dense_layers m) = [Some Tanh]
            \<and> activation_of (producer (outputs m)) = Some Softmax)
       \<and> (\<exists>m. LiuEtAl = Inr m
            \<and> map activation_of (conv_layers m) = [Some Relu, Some Relu, Some Relu, Some Relu]
            \<and> map activation_of (hidden_dense_layers m) = []
            \<and> activation_of (producer (outputs m)) = Some Softmax)
       \<and> (\<exists>m. LucasCNN = Inr m
            \<and> map activation_of (conv_layers m) = [Some Relu, Some Relu, Some Relu, Some Relu]
            \<and> map activation_of (hidden_dense_layers m) = [Some Relu, Some Relu]
            \<and> activation_of (producer (outputs m)) = Some Softmax)
       \<and> (\<exists>m. LucasResNet = Inr m
            \<and> map activation_of (conv_layers m) = [Some Relu, Some Relu, Some Relu, Some Relu]
            \<and> map activation_of (hidden_dense_layers m) = [Some Relu, Some Relu]
            \<and> activation_of (producer (outputs m)) = Some Softmax)
       \<and> (\<exists>m. LucasCoordConv modules = Inr m
            \<and> map activation_of (conv_layers m) = [Some Relu, Some Relu, Some Relu, Some Relu]
            \<and> map activation_of (hidden_dense_layers m) = [Some Relu, Some Relu]
            \<and> activation_of (producer (outputs m)) = Some Softmax)"
proof (intro conjI)
  show "\<exists>m. HuEtAl = Inr m
            \<and> map activation_of (conv_layers m) = [Some Tanh]
            \<and> map activation_of (hidden_dense_layers m) = [Some Tanh]
            \<and> activation_of (producer (outputs m)) = Some Softmax"
    by (rule built_mono [OF HuEtAl_built]) (simp add: filter_defs)
  show "\<exists>m. LiuEtAl = Inr m
            \<and> map activation_of (conv_layers m) = [Some Relu, Some Relu, Some Relu, Some Relu]
            \<and> map activation_of (hidden_dense_layers m) = []
            \<and> activation_of (producer (outputs m)) = Some Softmax"
    by (rule built_mono [OF LiuEtAl_built]) (simp add: filter_defs)
  show "\<exists>m. LucasCNN = Inr m
            \<and> map activation_of (conv_layers m) = [Some Relu, Some Relu, Some Relu, Some Relu]
            \<and> map activation_of (hidden_dense_layers m) = [Some Relu, Some Relu]
            \<and> activation_of (producer (outputs m)) = Some Softmax"
    by (rule built_mono [OF LucasCNN_built]) (simp add: filter_defs)
  show "\<exists>m. LucasResNet = Inr m
            \<and> map activation_of (conv_layers m) = [Some Relu, Some Relu, Some Relu, Some Relu]
            \<and> map activation_of (hidden_dense_layers m) = [Some Relu, Some Relu]
            \<and> activation_of (producer (outputs m)) = Some Softmax"
    by (rule built_mono [OF LucasResNet_built]) (simp add: filter_defs)
  show "\<exists>m. LucasCoordConv modules = Inr m
            \<and> map activation_of (conv_layers m) = [Some Relu, Some Relu, Some Relu, Some Relu]
            \<and> map activation_of (hidden_dense_layers m) = [Some Relu, Some Relu]
            \<and> activation_of (producer (outputs m)) = Some Softmax"
    by (rule built_mono [OF LucasCoordConv_built [OF assms]]) (simp add: filter_defs)
qed

theorem activations_witness:
  "''coord'' \<in> set [''coord'', ''numpy'']
   \<and> (\<exists>m. LucasCoordConv [''coord'', ''numpy''] = Inr m
        \<and> map activation_of (conv_layers m) = [Some Relu, Some Relu, Some Relu, Some Relu]
        \<and> map activation_of (hidden_dense_layers m) = [Some Relu, Some Relu]
        \<and> activation_of (producer (outputs m)) = Some Softmax)
   \<and> (\<exists>m. HuEtAl = Inr m
        \<and> map activation_of (conv_layers m) = [Some Tanh]
        \<and> map activation_of (hidden_dense_layers m) = [Some Tanh]
        \<and> activation_of (producer (outputs m)) = Some Softmax)"
proof -
  have h: "''coord'' \<in> set [''coord'', ''numpy'']"
    by simp
  from h activations [OF h] show ?thesis
    by blast
qed

section \<open>The skip connection of LucasResNet\<close>

lemma reshape_keeps_size:
  "output_shape (Reshape target_shape) [shp] = Inr s \<Longrightarrow>
   s = target_shape \<and> prod_list s = prod_list shp"
  by (auto split: if_splits)

text \<open>
  C6: \<open>LucasResNet\<close> reshapes its input of 256 time steps (shape (256, 1)) into a
  tensor of shape (16, 16). The reshape keeps every element, as both shapes hold
  \<open>256 = 16 * 16\<close> of them, and its result is the second tensor the concatenation is
  called on, the first being the output of the fourth pooling layer.
\<close>

theorem LucasResNet_reshape:
  "\<exists>m r c p1 p2 p3 x. LucasResNet = Inr m
     \<and> shape (inputs m) = [256, 1]
     \<and> produced_by (Reshape [16, 16]) m = [r]
     \<and> inbound r = [inputs m]
     \<and> shape r = [16, 16]
     \<and> prod_list (shape r) = prod_list (shape (inputs m))
     \<and> prod_list (shape (inputs m)) = 256
     \<and> produced_by (MaxPooling1D 2) m = [p1, p2, p3, x]
     \<and> produced_by (Concatenate (- 1)) m = [c]
     \<and> inbound c = [x, r]"
  by (simp add: LucasResNet_def build_defs read_defs)

text \<open>
  C9: in \<open>LucasResNet\<close> every convolution keeps the number of time steps and every
  pooling layer halves it, so the fourth pooling layer gives \<open>256 div 2 ^ 4 = 16\<close> time
  steps with 64 channels. The reshaped input has 16 rows as well, the concatenation
  along the last axis is accepted and gives shape (16, 64 + 16) = (16, 80), and the
  function returns a model: no layer call raises.
\<close>

theorem LucasResNet_concatenate:
  "\<exists>m c. LucasResNet = Inr m
     \<and> map shape (filter (\<lambda>t. is_conv (producer t)) (nodes m))
         = [[256, 32], [128, 32], [64, 64], [32, 64]]
     \<and> map shape (produced_by (MaxPooling1D 2) m)
         = [[128, 32], [64, 32], [32, 64], [256 div 2 ^ 4, 64]]
     \<and> produced_by (Concatenate (- 1)) m = [c]
     \<and> map shape (inbound c) = [[16, 64], [16, 16]]
     \<and> shape c = [16, 64 + 16]
     \<and> shape c = [16, 80]"
  by (simp add: LucasResNet_def build_defs read_defs)

section \<open>Where the factory can raise\<close>

lemma builders_return:
  "\<exists>m. returned LucasCNN = Inr (Some m)"
  "\<exists>m. returned HuEtAl = Inr (Some m)"
  "\<exists>m. returned LiuEtAl = Inr (Some m)"
  "\<exists>m. returned LucasResNet = Inr (Some m)"
  "''coord'' \<in> set modules \<Longrightarrow> \<exists>m. returned (LucasCoordConv modules) = Inr (Some m)"
  using returned_built [OF LucasCNN_built] returned_built [OF HuEtAl_built]
    returned_built [OF LiuEtAl_built] returned_built [OF LucasResNet_built]
    returned_built [OF LucasCoordConv_built]
  by blast+

lemma getKerasModel_builds:
  assumes "''coord'' \<in> set modules" and "name \<in> set model_names"
  shows "\<exists>m. getKerasModel modules out name = ([], Inr (Some m))"
  using assms(2)
  by (cases rule: model_names_cases)
    (simp_all add: getKerasModel_known builders_return(1-4) builders_return(5) [OF assms(1)])

text \<open>
  C7, as the claim states it, fails: on the path of an unrecognised name the call of
  \<^verbatim>\<open>print\<close> is an operation that can raise. On a closed standard output it raises
  \<^verbatim>\<open>ValueError\<close> for the name \<^verbatim>\<open>"VGG16"\<close>, and on an open UTF-8 one it raises
  \<^verbatim>\<open>UnicodeEncodeError\<close> for the name \<^verbatim>\<open>"\udc00"\<close>.
\<close>

theorem getKerasModel_print_raises:
  "snd (getKerasModel [''coord''] (Stream True utf8_strict) (py_str ''VGG16'')) = Inl ValueError
   \<and> snd (getKerasModel [''coord''] (Stream False utf8_strict) [0xDC00])
       = Inl UnicodeEncodeError"
  by (simp add: getKerasModel_def py_str_def not_implemented_def utf8_strict_def)

text \<open>
  C7, amended: with the module \<^verbatim>\<open>coord\<close> importable, every call with one of the five
  names returns a constructed graph and prints nothing, so no layer call raises. A
  call raises exactly when the name is not one of the five and \<^verbatim>\<open>print\<close> raises on
  the message; when \<^verbatim>\<open>print\<close> succeeds such a call returns \<^verbatim>\<open>None\<close>.
\<close>

theorem getKerasModel_error_paths:
  assumes "''coord'' \<in> set modules"
  shows "(name \<in> set model_names
            \<longrightarrow> (\<exists>m. getKerasModel modules out name = ([], Inr (Some m))))
       \<and> ((\<exists>e. snd (getKerasModel modules out name) = Inl e)
            = (name \<notin> set model_names
               \<and> (\<exists>e. snd (py_print out (not_implemented name)) = Some e)))
       \<and> (name \<notin> set model_names \<and> snd (py_print out (not_implemented name)) = None
            \<longrightarrow> snd (getKerasModel modules out name) = Inr None)"
proof (cases "name \<in> set model_names")
  case True
  from getKerasModel_builds [OF assms True, of out]
  obtain m where "getKerasModel modules out name = ([], Inr (Some m))"
    by blast
  with True show ?thesis
    by simp
next
  case False
  then show ?thesis
    by (simp add: getKerasModel_not_found split: prod.splits option.splits)
qed

theorem getKerasModel_error_paths_witness:
  "''coord'' \<in> set [''coord'']
   \<and> (\<exists>m. getKerasModel [''coord''] (Stream False utf8_strict) (py_str ''LucasCoordConv'')
          = ([], Inr (Some m)))
   \<and> snd (getKerasModel [''coord''] (Stream False utf8_strict) (py_str ''VGG16'')) = Inr None"
proof -
  have h: "''coord'' \<in> set [''coord'']"
    by simp
  from h getKerasModel_error_paths [OF h, of "py_str ''LucasCoordConv''" "Stream False utf8_strict"]
    getKerasModel_error_paths [OF h, of "py_str ''VGG16''" "Stream False utf8_strict"]
  show ?thesis
    by (simp add: model_names_def py_str_def not_implemented_def utf8_strict_def)
qed

end
